theory Spec2Isabelle
  imports Complex_Main
begin

section \<open>The host language: JavaScript numbers\<close>

text \<open>
  Every number of \<^verbatim>\<open>script.js\<close> is an IEEE 754 double. A finite double is kept as the
  rational it denotes (\<open>Fin q\<close>, with \<open>Fin 0\<close> for \<open>+0\<close>), next to \<open>-0\<close>, the two
  infinities and \<open>NaN\<close>. The result of an arithmetic operation is the exact rational result
  rounded to the nearest double, ties to even, as IEEE 754 prescribes.
\<close>

datatype jsnum = Fin rat | NegZero | PInf | NInf | NaN

fun val :: "jsnum \<Rightarrow> rat" where
  "val (Fin q) = q"
| "val NegZero = 0"
| "val PInf = 0"
| "val NInf = 0"
| "val NaN = 0"

fun isFinite :: "jsnum \<Rightarrow> bool" where
  "isFinite (Fin q) = True"
| "isFinite NegZero = True"
| "isFinite PInf = False"
| "isFinite NInf = False"
| "isFinite NaN = False"

fun is_zero :: "jsnum \<Rightarrow> bool" where
  "is_zero (Fin q) = (q = 0)"
| "is_zero NegZero = True"
| "is_zero PInf = False"
| "is_zero NInf = False"
| "is_zero NaN = False"

fun sign_neg :: "jsnum \<Rightarrow> bool" where
  "sign_neg (Fin q) = (q < 0)"
| "sign_neg NegZero = True"
| "sign_neg PInf = False"
| "sign_neg NInf = True"
| "sign_neg NaN = False"

definition signed_zero :: "bool \<Rightarrow> jsnum" where
  "signed_zero neg = (if neg then NegZero else Fin 0)"

definition signed_inf :: "bool \<Rightarrow> jsnum" where
  "signed_inf neg = (if neg then NInf else PInf)"

definition pow_int :: "int \<Rightarrow> int \<Rightarrow> rat" where
  "pow_int b k = (if 0 \<le> k then of_int b ^ nat k else 1 / of_int b ^ nat (- k))"

text \<open>
  \<open>ilen b n\<close> is the number of digits of \<open>n\<close> in base \<open>b\<close>, and \<open>ilog b q\<close> is
  \<open>\<lfloor>log\<^sub>b q\<rfloor>\<close> for a positive rational \<open>q\<close>.
\<close>

function ilen :: "int \<Rightarrow> int \<Rightarrow> int" where
  "ilen b n = (if n \<le> 0 \<or> b \<le> 1 then 0 else 1 + ilen b (n div b))"
  by pat_completeness auto
termination
  by (relation "measure (\<lambda>(b, n). nat n)") (auto intro: int_div_less_self)

declare ilen.simps [simp del]

definition ilog :: "int \<Rightarrow> rat \<Rightarrow> int" where
  "ilog b q =
     (if 1 \<le> q then ilen b \<lfloor>q\<rfloor> - 1
      else - ilen b (\<lceil>1 / q\<rceil> - 1))"

definition round_half_even :: "rat \<Rightarrow> int" where
  "round_half_even x =
     (let f = \<lfloor>x\<rfloor>; d = x - of_int f
      in if d < 1 / 2 then f
         else if 1 / 2 < d then f + 1
         else if even f then f else f + 1)"

text \<open>
  Rounding of an exact result to a double: 53 bits of precision, exponents from
  \<open>-1022\<close> (below it the spacing stays \<open>2\<^sup>-\<^sup>1\<^sup>0\<^sup>7\<^sup>4\<close>: subnormals), overflow to an
  infinity from \<open>2\<^sup>1\<^sup>0\<^sup>2\<^sup>4\<close> on, underflow to a zero of the result's sign.
\<close>

definition round_double :: "rat \<Rightarrow> jsnum" where
  "round_double q =
     (if q = 0 then Fin 0
      else
        let e = max (ilog 2 \<bar>q\<bar>) (- 1022);
            ulp = pow_int 2 (e - 52);
            r = of_int (round_half_even (q / ulp)) * ulp
        in if pow_int 2 1024 \<le> \<bar>r\<bar> then signed_inf (q < 0)
           else if r = 0 then signed_zero (q < 0)
           else Fin r)"

fun js_neg :: "jsnum \<Rightarrow> jsnum" where
  "js_neg (Fin q) = (if q = 0 then NegZero else Fin (- q))"
| "js_neg NegZero = Fin 0"
| "js_neg PInf = NInf"
| "js_neg NInf = PInf"
| "js_neg NaN = NaN"

definition js_add :: "jsnum \<Rightarrow> jsnum \<Rightarrow> jsnum" where
  "js_add a b =
     (if a = NaN \<or> b = NaN then NaN
      else if a = PInf then (if b = NInf then NaN else PInf)
      else if a = NInf then (if b = PInf then NaN else NInf)
      else if b = PInf \<or> b = NInf then b
      else if a = NegZero \<and> b = NegZero then NegZero
      else round_double (val a + val b))"

definition js_sub :: "jsnum \<Rightarrow> jsnum \<Rightarrow> jsnum" where
  "js_sub a b = js_add a (js_neg b)"

definition js_mul :: "jsnum \<Rightarrow> jsnum \<Rightarrow> jsnum" where
  "js_mul a b =
     (if a = NaN \<or> b = NaN then NaN
      else if isFinite a \<and> isFinite b then
        (if is_zero a \<or> is_zero b then signed_zero (sign_neg a \<noteq> sign_neg b)
         else round_double (val a * val b))
      else if is_zero a \<or> is_zero b then NaN
      else signed_inf (sign_neg a \<noteq> sign_neg b))"

definition js_div :: "jsnum \<Rightarrow> jsnum \<Rightarrow> jsnum" where
  "js_div a b =
     (if a = NaN \<or> b = NaN then NaN
      else if \<not> isFinite a then
        (if isFinite b then signed_inf (sign_neg a \<noteq> sign_neg b) else NaN)
      else if \<not> isFinite b then signed_zero (sign_neg a \<noteq> sign_neg b)
      else if is_zero b then
        (if is_zero a then NaN else signed_inf (sign_neg a \<noteq> sign_neg b))
      else if is_zero a then signed_zero (sign_neg a \<noteq> sign_neg b)
      else round_double (val a / val b))"

definition trunc :: "rat \<Rightarrow> int" where
  "trunc x = (if 0 \<le> x then \<lfloor>x\<rfloor> else \<lceil>x\<rceil>)"

text \<open>The remainder \<^verbatim>\<open>a % b\<close> is exact and takes the sign of the dividend.\<close>

definition js_rem :: "jsnum \<Rightarrow> jsnum \<Rightarrow> jsnum" where
  "js_rem a b =
     (if a = NaN \<or> b = NaN then NaN
      else if \<not> isFinite a then NaN
      else if is_zero b then NaN
      else if \<not> isFinite b then a
      else if is_zero a then a
      else
        let r = val a - val b * of_int (trunc (val a / val b))
        in if r = 0 then signed_zero (sign_neg a) else Fin r)"

text \<open>The comparisons \<^verbatim>\<open><\<close>, \<^verbatim>\<open><=\<close> and \<^verbatim>\<open>===\<close> on numbers: false whenever \<open>NaN\<close> takes part.\<close>

definition js_lt :: "jsnum \<Rightarrow> jsnum \<Rightarrow> bool" where
  "js_lt a b =
     (if a = NaN \<or> b = NaN then False
      else if a = PInf \<or> b = NInf then False
      else if a = NInf \<or> b = PInf then True
      else val a < val b)"

definition js_eq :: "jsnum \<Rightarrow> jsnum \<Rightarrow> bool" where
  "js_eq a b =
     (if a = NaN \<or> b = NaN then False
      else if isFinite a \<and> isFinite b then val a = val b
      else a = b)"

definition js_le :: "jsnum \<Rightarrow> jsnum \<Rightarrow> bool" where
  "js_le a b = (js_lt a b \<or> js_eq a b)"

text \<open>Truthiness of a number (\<^verbatim>\<open>x || y\<close>): \<open>\<plusminus>0\<close> and \<open>NaN\<close> are falsy.\<close>

definition truthy_num :: "jsnum \<Rightarrow> bool" where
  "truthy_num x = (if is_zero x then False else if x = NaN then False else True)"

fun Math_floor :: "jsnum \<Rightarrow> jsnum" where
  "Math_floor (Fin q) = Fin (of_int \<lfloor>q\<rfloor>)"
| "Math_floor NegZero = NegZero"
| "Math_floor PInf = PInf"
| "Math_floor NInf = NInf"
| "Math_floor NaN = NaN"

fun Math_abs :: "jsnum \<Rightarrow> jsnum" where
  "Math_abs (Fin q) = Fin \<bar>q\<bar>"
| "Math_abs NegZero = Fin 0"
| "Math_abs PInf = PInf"
| "Math_abs NInf = PInf"
| "Math_abs NaN = NaN"

text \<open>\<^verbatim>\<open>Math.PI\<close> is the double nearest to \<open>\<pi>\<close>, \<open>884279719003555 / 2\<^sup>4\<^sup>8\<close>.\<close>

definition Math_PI :: jsnum where
  "Math_PI = Fin (884279719003555 / 281474976710656)"

subsection \<open>Number to string\<close>

text \<open>
  \<^verbatim>\<open>String(x)\<close> on a number (ECMAScript \<open>Number::toString\<close>, radix 10): the shortest
  decimal digit string \<open>s\<close> with \<open>s \<times> 10\<^sup>n\<^sup>-\<^sup>k\<close> rounding back to \<open>x\<close>, the closest to
  \<open>x\<close> among those of that length, laid out in positional or exponent notation.
\<close>

definition digit_char :: "int \<Rightarrow> char" where
  "digit_char d = ''0123456789'' ! nat d"

function dec_digits :: "int \<Rightarrow> string" where
  "dec_digits n =
     (if n < 10 then [digit_char n] else dec_digits (n div 10) @ [digit_char (n mod 10)])"
  by pat_completeness auto
termination
  by (relation "measure nat") (auto intro: int_div_less_self)

declare dec_digits.simps [simp del]

text \<open>
  The candidates with \<open>k\<close> digits are the two multiples of \<open>10\<^sup>n\<^sup>0\<^sup>-\<^sup>k\<close> around \<open>x\<close>;
  the result is the digits as a number and the position \<open>n\<close> of the decimal point.
\<close>

definition try_digits :: "rat \<Rightarrow> int \<Rightarrow> nat \<Rightarrow> (int \<times> int) option" where
  "try_digits x n0 k =
     (let scale = pow_int 10 (n0 - int k);
          s = \<lfloor>x / scale\<rfloor>;
          lo = of_int s * scale;
          hi = of_int (s + 1) * scale;
          ok_lo = (round_double lo = Fin x);
          ok_hi = (round_double hi = Fin x);
          up = (if s + 1 = 10 ^ k then (1, n0 + 1) else (s + 1, n0));
          down = (s, n0)
      in if ok_lo \<and> ok_hi then
           (if x - lo < hi - x then Some down
            else if hi - x < x - lo then Some up
            else if even s then Some down else Some up)
         else if ok_lo then Some down
         else if ok_hi then Some up
         else None)"

fun shortest_from :: "rat \<Rightarrow> int \<Rightarrow> nat \<Rightarrow> nat \<Rightarrow> int \<times> int" where
  "shortest_from x n0 0 k = (\<lfloor>x / pow_int 10 (n0 - int k)\<rfloor>, n0)"
| "shortest_from x n0 (Suc fuel) k =
     (case try_digits x n0 k of
        Some r \<Rightarrow> r
      | None \<Rightarrow> shortest_from x n0 fuel (Suc k))"

definition layout :: "int \<times> int \<Rightarrow> string" where
  "layout sn =
     (let ds = dec_digits (fst sn); n = snd sn; k = int (length ds)
      in if k \<le> n \<and> n \<le> 21 then ds @ replicate (nat (n - k)) (CHR ''0'')
         else if 0 < n \<and> n \<le> 21 then take (nat n) ds @ ''.'' @ drop (nat n) ds
         else if - 6 < n \<and> n \<le> 0 then ''0.'' @ replicate (nat (- n)) (CHR ''0'') @ ds
         else
           let e = n - 1;
               es = (if e < 0 then ''-'' else ''+'') @ dec_digits \<bar>e\<bar>
           in if k = 1 then ds @ ''e'' @ es
              else take 1 ds @ ''.'' @ drop 1 ds @ ''e'' @ es)"

definition pos_string :: "rat \<Rightarrow> string" where
  "pos_string x = layout (shortest_from x (ilog 10 x + 1) 17 1)"

fun String_num :: "jsnum \<Rightarrow> string" where
  "String_num (Fin q) =
     (if q = 0 then ''0'' else if q < 0 then ''-'' @ pos_string (- q) else pos_string q)"
| "String_num NegZero = ''0''"
| "String_num PInf = ''Infinity''"
| "String_num NInf = ''-Infinity''"
| "String_num NaN = ''NaN''"

subsection \<open>String to number\<close>

text \<open>
  \<^verbatim>\<open>Number(s)\<close> on a string (ECMAScript \<open>StringToNumber\<close>): white space around the literal
  is dropped, the empty string is \<open>0\<close>, a signed decimal literal with optional fraction
  and exponent, \<^verbatim>\<open>Infinity\<close>, or an unsigned binary, octal or hexadecimal integer literal
  is its value rounded to a double, and every other string is \<open>NaN\<close>.
\<close>

definition is_ws :: "char \<Rightarrow> bool" where
  "is_ws c = (c \<in> set [CHR 0x09, CHR 0x0A, CHR 0x0B, CHR 0x0C, CHR 0x0D, CHR 0x20, CHR 0xA0])"

definition trim :: "string \<Rightarrow> string" where
  "trim s = rev (dropWhile is_ws (rev (dropWhile is_ws s)))"

definition is_digit :: "char \<Rightarrow> bool" where
  "is_digit c = (c \<in> set ''0123456789'')"

definition digit_in :: "string \<Rightarrow> char \<Rightarrow> int" where
  "digit_in alphabet c = int (length (takeWhile (\<lambda>d. d \<noteq> c) alphabet))"

definition digits_val :: "string \<Rightarrow> int" where
  "digits_val ds = foldl (\<lambda>a c. 10 * a + digit_in ''0123456789'' c) 0 ds"

definition radix_val :: "nat \<Rightarrow> string \<Rightarrow> int option" where
  "radix_val b ds =
     (if ds \<noteq> [] \<and> list_all (\<lambda>c. c \<in> set (take b ''0123456789abcdef'') \<or>
                                      c \<in> set (take b ''0123456789ABCDEF'')) ds
      then Some (foldl (\<lambda>a c. int b * a + min (digit_in ''0123456789abcdef'' c)
                                           (digit_in ''0123456789ABCDEF'' c)) 0 ds)
      else None)"

definition nondecimal :: "string \<Rightarrow> int option" where
  "nondecimal t =
     (case t of
        c0 # c1 # ds \<Rightarrow>
          if c0 \<noteq> CHR ''0'' then None
          else if c1 = CHR ''x'' \<or> c1 = CHR ''X'' then radix_val 16 ds
          else if c1 = CHR ''o'' \<or> c1 = CHR ''O'' then radix_val 8 ds
          else if c1 = CHR ''b'' \<or> c1 = CHR ''B'' then radix_val 2 ds
          else None
      | _ \<Rightarrow> None)"

definition unsigned_int :: "string \<Rightarrow> int option" where
  "unsigned_int ds = (if ds \<noteq> [] \<and> list_all is_digit ds then Some (digits_val ds) else None)"

definition exp_part :: "string \<Rightarrow> int option" where
  "exp_part r =
     (case r of
        [] \<Rightarrow> Some 0
      | c # t \<Rightarrow>
          if c = CHR ''e'' \<or> c = CHR ''E'' then
            (case t of
               [] \<Rightarrow> None
             | d # ds \<Rightarrow>
                 if d = CHR ''+'' then unsigned_int ds
                 else if d = CHR ''-'' then map_option uminus (unsigned_int ds)
                 else unsigned_int t)
          else None)"

definition str_decimal :: "string \<Rightarrow> rat option" where
  "str_decimal u =
     (let ip = takeWhile is_digit u;
          r1 = dropWhile is_digit u;
          dot = (r1 \<noteq> [] \<and> hd r1 = CHR ''.'');
          fp = (if dot then takeWhile is_digit (tl r1) else []);
          r2 = (if dot then dropWhile is_digit (tl r1) else r1)
      in if ip = [] \<and> fp = [] then None
         else
           (case exp_part r2 of
              None \<Rightarrow> None
            | Some e \<Rightarrow>
                Some ((of_int (digits_val ip) + of_int (digits_val fp) / 10 ^ length fp)
                      * pow_int 10 e)))"

definition Number_str :: "string \<Rightarrow> jsnum" where
  "Number_str s =
     (let t = trim s
      in if t = [] then Fin 0
         else
           (case nondecimal t of
              Some n \<Rightarrow> round_double (of_int n)
            | None \<Rightarrow>
                let neg = (hd t = CHR ''-'');
                    u = (if hd t = CHR ''-'' \<or> hd t = CHR ''+'' then tl t else t)
                in if u = ''Infinity'' then signed_inf neg
                   else
                     (case str_decimal u of
                        None \<Rightarrow> NaN
                      | Some q \<Rightarrow>
                          if q = 0 then signed_zero neg
                          else round_double (if neg then - q else q))))"

text \<open>
  The functions of \<^verbatim>\<open>Math\<close> that the language leaves to the implementation
  (square root, power, logarithms, exponential, the circular and hyperbolic functions and
  their inverses) are a parameter of the model: a record of functions on numbers.
  \<^verbatim>\<open>Math.floor\<close>, \<^verbatim>\<open>Math.abs\<close> and \<^verbatim>\<open>Math.PI\<close> are exact and defined above.
\<close>

record math =
  Math_sqrt :: "jsnum \<Rightarrow> jsnum"
  Math_pow :: "jsnum \<Rightarrow> jsnum \<Rightarrow> jsnum"
  Math_log10 :: "jsnum \<Rightarrow> jsnum"
  Math_exp :: "jsnum \<Rightarrow> jsnum"
  Math_log :: "jsnum \<Rightarrow> jsnum"
  Math_sin :: "jsnum \<Rightarrow> jsnum"
  Math_cos :: "jsnum \<Rightarrow> jsnum"
  Math_tan :: "jsnum \<Rightarrow> jsnum"
  Math_asin :: "jsnum \<Rightarrow> jsnum"
  Math_acos :: "jsnum \<Rightarrow> jsnum"
  Math_atan :: "jsnum \<Rightarrow> jsnum"
  Math_sinh :: "jsnum \<Rightarrow> jsnum"
  Math_cosh :: "jsnum \<Rightarrow> jsnum"
  Math_tanh :: "jsnum \<Rightarrow> jsnum"
  Math_asinh :: "jsnum \<Rightarrow> jsnum"
  Math_acosh :: "jsnum \<Rightarrow> jsnum"
  Math_atanh :: "jsnum \<Rightarrow> jsnum"

text \<open>
  A host whose implementation-defined functions answer \<open>NaN\<close> everywhere. It closes the
  statements about concrete runs below; the theorems themselves hold for every host.
\<close>

definition nan_math :: math where
  "nan_math =
     \<lparr>Math_sqrt = (\<lambda>v. NaN), Math_pow = (\<lambda>b v. NaN), Math_log10 = (\<lambda>v. NaN),
      Math_exp = (\<lambda>v. NaN), Math_log = (\<lambda>v. NaN),
      Math_sin = (\<lambda>v. NaN), Math_cos = (\<lambda>v. NaN), Math_tan = (\<lambda>v. NaN),
      Math_asin = (\<lambda>v. NaN), Math_acos = (\<lambda>v. NaN), Math_atan = (\<lambda>v. NaN),
      Math_sinh = (\<lambda>v. NaN), Math_cosh = (\<lambda>v. NaN), Math_tanh = (\<lambda>v. NaN),
      Math_asinh = (\<lambda>v. NaN), Math_acosh = (\<lambda>v. NaN), Math_atanh = (\<lambda>v. NaN)\<rparr>"

section \<open>The calculator state\<close>

text \<open>
  The object \<^verbatim>\<open>state\<close> of \<^verbatim>\<open>script.js\<close> (lines 19 to 31). The fields \<^verbatim>\<open>power\<close> and
  \<^verbatim>\<open>acc\<close> carry a suffix, their names being taken in HOL. \<^verbatim>\<open>mode\<close> only ever holds
  \<^verbatim>\<open>'DEG'\<close> or \<^verbatim>\<open>'RAD'\<close>; \<^verbatim>\<open>pendingOp\<close> is \<^verbatim>\<open>null\<close> or the operator of a key.
\<close>

datatype angle_mode = DEG | RAD

datatype binop = OpAdd | OpSub | OpMul | OpDiv | OpRem | OpOther

record state =
  power_st :: bool
  shift :: bool
  alpha :: bool
  hyp :: bool
  mode :: angle_mode
  acc_st :: jsnum
  pendingOp :: "binop option"
  current :: string
  lastAns :: jsnum
  memory :: jsnum
  vars :: "char \<rightharpoonup> jsnum"

definition init :: state where
  "init =
     \<lparr>power_st = True, shift = False, alpha = False, hyp = False, mode = DEG,
      acc_st = Fin 0, pendingOp = None, current = [], lastAns = Fin 0, memory = Fin 0,
      vars = Map.empty\<rparr>"

text \<open>A value that is a string or a number, as \<^verbatim>\<open>state.current || state.lastAns\<close> is.\<close>

datatype jsval = Str string | Num jsnum

text \<open>\<^verbatim>\<open>function toNumber(s) { return s === '' ? 0 : Number(s); }\<close>\<close>

fun toNumber :: "jsval \<Rightarrow> jsnum" where
  "toNumber (Str s) = (if s = [] then Fin 0 else Number_str s)"
| "toNumber (Num n) = n"

text \<open>
  \<^verbatim>\<open>state.current || state.lastAns\<close>, which the source also writes
  \<^verbatim>\<open>state.current === '' ? state.lastAns : state.current\<close>: the empty string is the only
  falsy string.
\<close>

definition current_or_lastAns :: "state \<Rightarrow> jsval" where
  "current_or_lastAns s = (if current s \<noteq> [] then Str (current s) else Num (lastAns s))"

text \<open>The value a key reads, \<^verbatim>\<open>toNumber(state.current || state.lastAns)\<close>.\<close>

abbreviation read_value :: "state \<Rightarrow> jsnum" where
  "read_value s \<equiv> toNumber (current_or_lastAns s)"

text \<open>
  \<^verbatim>\<open>clearShifts\<close> (lines 152 to 157). The writes to the page (\<^verbatim>\<open>updateIndicators\<close>,
  \<^verbatim>\<open>refreshScreen\<close>, \<^verbatim>\<open>alert\<close>, \<^verbatim>\<open>playClick\<close>) read the state and leave it as it is;
  they have no counterpart here.
\<close>

definition clearShifts :: "state \<Rightarrow> state" where
  "clearShifts s = s\<lparr>shift := False, alpha := False\<rparr>"

text \<open>
  \<^verbatim>\<open>(typeof res === 'number' && !isFinite(res)) ? 'Error' : String(res)\<close>, for a result
  that is a number.
\<close>

definition show_result :: "jsnum \<Rightarrow> string" where
  "show_result res = (if \<not> isFinite res then ''Error'' else String_num res)"

text \<open>
  \<^verbatim>\<open>applyUnary\<close> (lines 56 to 64). The function argument returns \<open>None\<close> when its
  evaluation does not end; none of the functions passed throws, so the \<^verbatim>\<open>catch\<close> branch
  is never taken.
\<close>

definition applyUnary :: "(jsnum \<Rightarrow> jsnum option) \<Rightarrow> state \<Rightarrow> state option" where
  "applyUnary f s =
     (if \<not> power_st s then Some s
      else
        (case f (read_value s) of
           None \<Rightarrow> None
         | Some res \<Rightarrow> Some (clearShifts (s\<lparr>current := show_result res\<rparr>))))"

definition degToRad :: "jsnum \<Rightarrow> jsnum" where
  "degToRad v = js_div (js_mul v Math_PI) (Fin 180)"

definition radToDeg :: "jsnum \<Rightarrow> jsnum" where
  "radToDeg v = js_div (js_mul v (Fin 180)) Math_PI"

datatype kind = Sin | Cos | Tan

text \<open>\<^verbatim>\<open>trigApply\<close> (lines 74 to 119); \<open>trigResult\<close> is its variable \<^verbatim>\<open>result\<close>.\<close>

definition trigResult :: "math \<Rightarrow> kind \<Rightarrow> state \<Rightarrow> jsnum" where
  "trigResult M k s =
     (let v = read_value s;
          isHyp = hyp s;
          isInv = shift s;
          inRad = (if mode s = DEG then degToRad v else v)
      in if isHyp then
           (if isInv then
              (case k of Sin \<Rightarrow> Math_asinh M v | Cos \<Rightarrow> Math_acosh M v | Tan \<Rightarrow> Math_atanh M v)
            else
              (case k of Sin \<Rightarrow> Math_sinh M inRad | Cos \<Rightarrow> Math_cosh M inRad
               | Tan \<Rightarrow> Math_tanh M inRad))
         else
           (if isInv then
              (let r = (case k of Sin \<Rightarrow> Math_asin M v | Cos \<Rightarrow> Math_acos M v
                        | Tan \<Rightarrow> Math_atan M v)
               in if mode s = DEG then radToDeg r else r)
            else
              (case k of Sin \<Rightarrow> Math_sin M inRad | Cos \<Rightarrow> Math_cos M inRad
               | Tan \<Rightarrow> Math_tan M inRad)))"

definition trigApply :: "math \<Rightarrow> kind \<Rightarrow> state \<Rightarrow> state" where
  "trigApply M k s =
     (if \<not> power_st s then s
      else clearShifts (s\<lparr>current := show_result (trigResult M k s)\<rparr>))"

text \<open>
  \<^verbatim>\<open>executePending\<close> (lines 122 to 149). The variable \<^verbatim>\<open>r\<close> is the string \<^verbatim>\<open>'Error'\<close> or
  a number; \<open>OpOther\<close> stands for an operator outside the five of the \<^verbatim>\<open>switch\<close> and
  takes its \<^verbatim>\<open>default\<close> branch.
\<close>

definition executePending :: "state \<Rightarrow> state" where
  "executePending s =
     (case pendingOp s of
        None \<Rightarrow> s\<lparr>acc_st := read_value s, current := []\<rparr>
      | Some op \<Rightarrow>
          let a = acc_st s;
              b = read_value s;
              r = (case op of
                     OpAdd \<Rightarrow> Num (js_add a b)
                   | OpSub \<Rightarrow> Num (js_sub a b)
                   | OpMul \<Rightarrow> Num (js_mul a b)
                   | OpDiv \<Rightarrow> (if js_eq b (Fin 0) then Str ''Error'' else Num (js_div a b))
                   | OpRem \<Rightarrow> Num (js_rem a b)
                   | OpOther \<Rightarrow> Num b)
          in (case r of
                Str e \<Rightarrow> s\<lparr>current := ''Error'', acc_st := Fin 0, pendingOp := None\<rparr>
              | Num x \<Rightarrow>
                  if \<not> isFinite x
                  then s\<lparr>current := ''Error'', acc_st := Fin 0, pendingOp := None\<rparr>
                  else s\<lparr>acc_st := x, lastAns := x, current := []\<rparr>))"

text \<open>
  The factorial of the \<^verbatim>\<open>x!\<close> key (lines 294 to 300). The loop counts in doubles, so it
  need not end: \<open>None\<close> is the run that never returns.
\<close>

partial_function (option) fact_loop :: "jsnum \<Rightarrow> jsnum \<Rightarrow> jsnum \<Rightarrow> jsnum option" where
  "fact_loop i v res =
     (if js_le i v then fact_loop (js_add i (Fin 1)) v (js_mul res i) else Some res)"

definition factorial :: "jsnum \<Rightarrow> jsnum option" where
  "factorial v0 =
     (let v = Math_floor v0
      in if js_lt v (Fin 0) then Some NaN else fact_loop (Fin 2) v (Fin 1))"

section \<open>The key handlers\<close>

text \<open>
  The keys of \<^verbatim>\<open>handleKey\<close>, named as the specification names its events, with the
  \<^verbatim>\<open>fn\<close> string of each: \<open>PowerOn\<close> \<^verbatim>\<open>on\<close>, \<open>Shift\<close> \<^verbatim>\<open>shift\<close>, \<open>Alpha\<close> \<^verbatim>\<open>alpha\<close>,
  \<open>Hyp\<close> \<^verbatim>\<open>hyp\<close>, \<open>ModeToggle\<close> \<^verbatim>\<open>mode\<close>, \<open>Drg\<close> \<^verbatim>\<open>drg\<close>, \<open>AllClear\<close> \<^verbatim>\<open>ac\<close>,
  \<open>Delete\<close> \<^verbatim>\<open>del\<close>, \<open>Ans\<close> \<^verbatim>\<open>ans\<close>, \<open>Pi\<close> \<^verbatim>\<open>pi\<close>, \<open>Percent\<close> \<^verbatim>\<open>%\<close>, \<open>Sqrt\<close> \<^verbatim>\<open>sqrt\<close>,
  \<open>Reciprocal\<close> \<^verbatim>\<open>recip\<close>, \<open>Square\<close> \<^verbatim>\<open>x2\<close>, \<open>Cube\<close> \<^verbatim>\<open>x3\<close>, \<open>Log\<close> \<^verbatim>\<open>log\<close>,
  \<open>Ln\<close> \<^verbatim>\<open>ln\<close>, \<open>Trig k\<close> \<^verbatim>\<open>sin\<close>, \<^verbatim>\<open>cos\<close>, \<^verbatim>\<open>tan\<close>, \<open>Factorial\<close> \<^verbatim>\<open>x!\<close>,
  \<open>Equals\<close> \<^verbatim>\<open>equal\<close>, \<open>Store\<close> \<^verbatim>\<open>sto\<close>, \<open>Recall\<close> \<^verbatim>\<open>rcl\<close>, \<open>MemAdd\<close> \<^verbatim>\<open>m+\<close>,
  \<open>MemSub\<close> \<^verbatim>\<open>m-\<close>, \<open>MemRecall\<close> \<^verbatim>\<open>mr\<close>, \<open>MemClear\<close> \<^verbatim>\<open>mc\<close>, \<open>EngNotation\<close> \<^verbatim>\<open>eng\<close>,
  and \<open>OtherKey\<close> for any other string. \<open>Store\<close> and \<open>Recall\<close> carry the answer that
  \<^verbatim>\<open>prompt\<close> would give: \<open>None\<close> for \<^verbatim>\<open>null\<close>, or the text typed.
\<close>

datatype fn =
    PowerOn | Shift | Alpha | Hyp | ModeToggle | Drg | AllClear | Delete | Ans | Pi
  | Percent | Sqrt | Reciprocal | Square | Cube | Log | Ln | Trig kind | Factorial
  | Equals | Store "string option" | Recall "string option"
  | MemAdd | MemSub | MemRecall | MemClear | EngNotation | OtherKey

definition to_upper :: "char \<Rightarrow> char" where
  "to_upper c =
     (case map_of (zip ''abcdefghijklmnopqrstuvwxyz'' ''ABCDEFGHIJKLMNOPQRSTUVWXYZ'') c of
        Some u \<Rightarrow> u
      | None \<Rightarrow> c)"

text \<open>
  The \<^verbatim>\<open>sto\<close> and \<^verbatim>\<open>rcl\<close> branch (lines 316 to 341); \<open>sto\<close> tells the two keys apart.
  \<open>key\<close> is \<^verbatim>\<open>name.trim().toUpperCase().charAt(0)\<close>, the empty string when nothing
  is left after trimming.
\<close>

definition sto_rcl :: "bool \<Rightarrow> string option \<Rightarrow> state \<Rightarrow> state" where
  "sto_rcl sto reply s =
     (if alpha s then
        (case reply of
           None \<Rightarrow> clearShifts s
         | Some name \<Rightarrow>
             if name = [] then clearShifts s
             else
               let key = take 1 (map to_upper (trim name))
               in if \<not> list_ex (\<lambda>c. c \<in> set ''ABCDEF'') key then clearShifts s
                  else if sto then
                    clearShifts (s\<lparr>vars := (vars s)(hd key \<mapsto> read_value s)\<rparr>)
                  else
                    (case vars s (hd key) of
                       Some v \<Rightarrow> clearShifts (s\<lparr>current := String_num v\<rparr>)
                     | None \<Rightarrow> clearShifts s))
      else clearShifts s)"

definition flip_mode :: "angle_mode \<Rightarrow> angle_mode" where
  "flip_mode m = (if m = DEG then RAD else DEG)"

text \<open>\<^verbatim>\<open>handleKey\<close> (lines 160 to 371), branch by branch in the order of the source.\<close>

definition handleKey :: "math \<Rightarrow> fn \<Rightarrow> state \<Rightarrow> state option" where
  "handleKey M f s =
     (if \<not> power_st s \<and> f \<noteq> PowerOn then Some s
      else
        (case f of
           PowerOn \<Rightarrow> Some (s\<lparr>power_st := True, current := []\<rparr>)
         | Shift \<Rightarrow> Some (s\<lparr>shift := \<not> shift s, alpha := False\<rparr>)
         | Alpha \<Rightarrow> Some (s\<lparr>alpha := \<not> alpha s, shift := False\<rparr>)
         | Hyp \<Rightarrow> Some (s\<lparr>hyp := \<not> hyp s\<rparr>)
         | ModeToggle \<Rightarrow> Some (s\<lparr>mode := flip_mode (mode s)\<rparr>)
         | Drg \<Rightarrow> Some (s\<lparr>mode := flip_mode (mode s)\<rparr>)
         | AllClear \<Rightarrow>
             if shift s then
               Some (s\<lparr>power_st := False, current := [], pendingOp := None, acc_st := Fin 0,
                       lastAns := Fin 0, shift := False, alpha := False\<rparr>)
             else
               Some (clearShifts
                 (s\<lparr>current := [], pendingOp := None, acc_st := Fin 0, lastAns := Fin 0\<rparr>))
         | Delete \<Rightarrow>
             Some (clearShifts
               (if 0 < length (current s) then s\<lparr>current := butlast (current s)\<rparr> else s))
         | Ans \<Rightarrow>
             Some (clearShifts
               (s\<lparr>current :=
                    String_num (if truthy_num (lastAns s) then lastAns s else Fin 0)\<rparr>))
         | Pi \<Rightarrow> Some (clearShifts (s\<lparr>current := String_num Math_PI\<rparr>))
         | Percent \<Rightarrow> applyUnary (\<lambda>v. Some (js_div v (Fin 100))) s
         | Sqrt \<Rightarrow> applyUnary (\<lambda>v. Some (Math_sqrt M v)) s
         | Reciprocal \<Rightarrow> applyUnary (\<lambda>v. Some (js_div (Fin 1) v)) s
         | Square \<Rightarrow> applyUnary (\<lambda>v. Some (js_mul v v)) s
         | Cube \<Rightarrow> applyUnary (\<lambda>v. Some (js_mul (js_mul v v) v)) s
         | Log \<Rightarrow>
             if shift s then applyUnary (\<lambda>v. Some (Math_pow M (Fin 10) v)) s
             else applyUnary (\<lambda>v. Some (Math_log10 M v)) s
         | Ln \<Rightarrow>
             if shift s then applyUnary (\<lambda>v. Some (Math_exp M v)) s
             else applyUnary (\<lambda>v. Some (Math_log M v)) s
         | Trig k \<Rightarrow> Some (trigApply M k s)
         | Factorial \<Rightarrow> applyUnary factorial s
         | Equals \<Rightarrow>
             (let s1 = executePending s
              in Some (clearShifts (s1\<lparr>lastAns := acc_st s1, current := [], pendingOp := None\<rparr>)))
         | Store reply \<Rightarrow> Some (sto_rcl True reply s)
         | Recall reply \<Rightarrow> Some (sto_rcl False reply s)
         | MemAdd \<Rightarrow>
             Some (clearShifts
               (s\<lparr>memory := js_add (memory s) (read_value s)\<rparr>))
         | MemSub \<Rightarrow>
             Some (clearShifts
               (s\<lparr>memory := js_sub (memory s) (read_value s)\<rparr>))
         | MemRecall \<Rightarrow> Some (clearShifts (s\<lparr>current := String_num (memory s)\<rparr>))
         | MemClear \<Rightarrow> Some (clearShifts (s\<lparr>memory := Fin 0\<rparr>))
         | EngNotation \<Rightarrow>
             (let v = read_value s
              in if js_eq v (Fin 0) then Some (clearShifts (s\<lparr>current := ''0''\<rparr>))
                 else
                   let p = Math_floor (js_div (Math_log10 M (Math_abs v)) (Fin 3));
                       m = js_div v (Math_pow M (Fin 10) (js_mul p (Fin 3)))
                   in Some (clearShifts
                        (s\<lparr>current := String_num m @ ''e'' @ String_num (js_mul p (Fin 3))\<rparr>)))
         | OtherKey \<Rightarrow> Some (clearShifts s)))"

text \<open>\<^verbatim>\<open>handleNumKey\<close> (lines 374 to 381); \<open>d\<close> is the text of the key.\<close>

definition handleNumKey :: "string \<Rightarrow> state \<Rightarrow> state" where
  "handleNumKey d s =
     (if \<not> power_st s then s
      else if d = ''.'' \<and> CHR ''.'' \<in> set (current s) then s
      else if current s = ''0'' \<and> d \<noteq> ''.'' then s\<lparr>current := d\<rparr>
      else s\<lparr>current := current s @ d\<rparr>)"

text \<open>\<^verbatim>\<open>handleOp\<close> (lines 383 to 394).\<close>

definition handleOp :: "binop \<Rightarrow> state \<Rightarrow> state" where
  "handleOp op s =
     (if \<not> power_st s then s
      else
        (let s1 = (if pendingOp s \<noteq> None \<and> current s \<noteq> [] then executePending s
                   else if current s \<noteq> [] then
                     s\<lparr>acc_st := toNumber (Str (current s)), current := []\<rparr>
                   else s)
         in s1\<lparr>pendingOp := Some op\<rparr>))"

section \<open>Events and runs\<close>

text \<open>
  The click handler (lines 397 to 409) sends a key with a \<^verbatim>\<open>num\<close> to \<^verbatim>\<open>handleNumKey\<close>,
  a key with an \<^verbatim>\<open>op\<close> to \<^verbatim>\<open>handleOp\<close> and any other key to \<^verbatim>\<open>handleKey\<close>; the keyboard
  handler (lines 412 to 423) calls the same three functions. An event is one such key
  press: a digit key carries one decimal digit, the point key the text \<^verbatim>\<open>.\<close>. The
  result \<open>None\<close> is a handler that never returns.
\<close>

datatype digit = D0 | D1 | D2 | D3 | D4 | D5 | D6 | D7 | D8 | D9

fun digit_text :: "digit \<Rightarrow> string" where
  "digit_text D0 = ''0''"
| "digit_text D1 = ''1''"
| "digit_text D2 = ''2''"
| "digit_text D3 = ''3''"
| "digit_text D4 = ''4''"
| "digit_text D5 = ''5''"
| "digit_text D6 = ''6''"
| "digit_text D7 = ''7''"
| "digit_text D8 = ''8''"
| "digit_text D9 = ''9''"

datatype event = Key fn | Digit digit | DecimalPoint | BinaryOp binop

fun handleEvent :: "math \<Rightarrow> event \<Rightarrow> state \<Rightarrow> state option" where
  "handleEvent M (Key f) s = handleKey M f s"
| "handleEvent M (Digit d) s = Some (handleNumKey (digit_text d) s)"
| "handleEvent M DecimalPoint s = Some (handleNumKey ''.'' s)"
| "handleEvent M (BinaryOp op) s = Some (handleOp op s)"

fun run :: "math \<Rightarrow> event list \<Rightarrow> state \<Rightarrow> state option" where
  "run M [] s = Some s"
| "run M (e # es) s =
     (case handleEvent M e s of
        None \<Rightarrow> None
      | Some s' \<Rightarrow> run M es s')"

text \<open>The states the calculator can be in: those some run from \<open>init\<close> ends in.\<close>

inductive reachable :: "math \<Rightarrow> state \<Rightarrow> bool" for M :: math where
  reachable_init: "reachable M init"
| reachable_step: "reachable M s \<Longrightarrow> handleEvent M e s = Some s' \<Longrightarrow> reachable M s'"

section \<open>Predicates of the claims\<close>

text \<open>
  The keys after which \<^verbatim>\<open>handleKey\<close> clears the one-shot modifiers: all but the power-on
  key, the three modifier toggles and the two angle-mode keys.
\<close>

definition clears_modifiers :: "event \<Rightarrow> bool" where
  "clears_modifiers e =
     (case e of
        Key f \<Rightarrow> f \<notin> set [PowerOn, Shift, Alpha, Hyp, ModeToggle, Drg]
      | Digit d \<Rightarrow> False
      | DecimalPoint \<Rightarrow> False
      | BinaryOp op \<Rightarrow> False)"

text \<open>
  The entry grammar: digits and the decimal point, the point at most once. The events that
  keep \<open>current\<close> within it are those that leave it alone, empty it, extend or shorten an
  entry, or write the digits of \<open>\<pi>\<close>.
\<close>

definition entry_char :: "char \<Rightarrow> bool" where
  "entry_char x = (x \<in> set ''0123456789.'')"

definition entry_ok :: "string \<Rightarrow> bool" where
  "entry_ok c = (list_all entry_char c \<and> length (filter (\<lambda>x. x = CHR ''.'') c) \<le> 1)"

definition keeps_grammar :: "event \<Rightarrow> bool" where
  "keeps_grammar e =
     (case e of
        Key f \<Rightarrow>
          (case f of
             Store reply \<Rightarrow> True
           | _ \<Rightarrow> f \<in> set [PowerOn, Shift, Alpha, Hyp, ModeToggle, Drg, AllClear, Delete,
                              Pi, Equals, MemAdd, MemSub, MemClear, OtherKey])
      | Digit d \<Rightarrow> True
      | DecimalPoint \<Rightarrow> True
      | BinaryOp op \<Rightarrow> False)"

text \<open>
  The function of \<^verbatim>\<open>Math\<close> that a key \<^verbatim>\<open>sin\<close>, \<^verbatim>\<open>cos\<close> or \<^verbatim>\<open>tan\<close> selects in each of the
  four families.
\<close>

definition Math_forward :: "math \<Rightarrow> kind \<Rightarrow> jsnum \<Rightarrow> jsnum" where
  "Math_forward M k x = (case k of Sin \<Rightarrow> Math_sin M x | Cos \<Rightarrow> Math_cos M x | Tan \<Rightarrow> Math_tan M x)"

definition Math_hyperbolic :: "math \<Rightarrow> kind \<Rightarrow> jsnum \<Rightarrow> jsnum" where
  "Math_hyperbolic M k x =
     (case k of Sin \<Rightarrow> Math_sinh M x | Cos \<Rightarrow> Math_cosh M x | Tan \<Rightarrow> Math_tanh M x)"

definition Math_inverse :: "math \<Rightarrow> kind \<Rightarrow> jsnum \<Rightarrow> jsnum" where
  "Math_inverse M k x =
     (case k of Sin \<Rightarrow> Math_asin M x | Cos \<Rightarrow> Math_acos M x | Tan \<Rightarrow> Math_atan M x)"

definition Math_inverse_hyperbolic :: "math \<Rightarrow> kind \<Rightarrow> jsnum \<Rightarrow> jsnum" where
  "Math_inverse_hyperbolic M k x =
     (case k of Sin \<Rightarrow> Math_asinh M x | Cos \<Rightarrow> Math_acosh M x | Tan \<Rightarrow> Math_atanh M x)"

section \<open>Facts about the number model\<close>

lemma ilen_nonneg: "0 \<le> ilen b n"
  by (induction b n rule: ilen.induct) (subst ilen.simps, simp)

lemma ilen_pos: "0 < n \<Longrightarrow> 1 < b \<Longrightarrow> 1 \<le> ilen b n"
  using ilen_nonneg [of b "n div b"] by (subst ilen.simps) simp

lemma ilen_le: "1 < b \<Longrightarrow> n < b ^ k \<Longrightarrow> ilen b n \<le> int k"
proof (induction k arbitrary: n)
  case 0
  then show ?case by (subst ilen.simps) simp
next
  case (Suc k)
  show ?case
  proof (cases "n \<le> 0")
    case True
    then show ?thesis by (subst ilen.simps) simp
  next
    case False
    have "n div b < b ^ k"
    proof (rule ccontr)
      assume "\<not> n div b < b ^ k"
      then have "b * b ^ k \<le> b * (n div b)"
        using Suc.prems(1) by (simp add: mult_left_mono)
      moreover have "b * (n div b) + n mod b = n" by simp
      moreover have "0 \<le> n mod b" using Suc.prems(1) by simp
      ultimately have "b * b ^ k \<le> n" by linarith
      then show False using Suc.prems(2) by simp
    qed
    then have "ilen b (n div b) \<le> int k"
      using Suc.IH Suc.prems(1) by blast
    then show ?thesis by (subst ilen.simps) simp
  qed
qed

lemma round_half_even_int: "round_half_even (of_int m) = m"
  by (simp add: round_half_even_def)

lemma round_double_int:
  assumes "n \<noteq> 0" and "\<bar>n\<bar> < 2 ^ 53"
  shows "round_double (of_int n) = Fin (of_int n)"
proof -
  define e where "e = ilen 2 \<bar>n\<bar> - 1"
  have pos: "0 < \<bar>n\<bar>" using assms(1) by simp
  have e0: "0 \<le> e" using ilen_pos [OF pos, of 2] by (simp add: e_def)
  have e52: "e \<le> 52" using ilen_le [of 2 "\<bar>n\<bar>" 53] assms(2) by (simp add: e_def)
  have il: "ilog 2 \<bar>of_int n\<bar> = e"
  proof -
    have "(1::rat) \<le> \<bar>of_int n\<bar>" using pos
      by (metis of_int_1_le_iff of_int_abs zless_imp_add1_zle add_0)
    moreover have "\<lfloor>\<bar>of_int n :: rat\<bar>\<rfloor> = \<bar>n\<bar>"
      by (metis floor_of_int of_int_abs)
    ultimately show ?thesis by (simp add: ilog_def e_def)
  qed
  define d where "d = nat (52 - e)"
  have ulp: "pow_int 2 (e - 52) = 1 / 2 ^ d"
    using e52 by (cases "e = 52") (simp_all add: pow_int_def d_def)
  have scaled: "(of_int n :: rat) / (1 / 2 ^ d) = of_int (n * 2 ^ d)"
    by simp
  have rhe: "round_half_even (rat_of_int n * 2 ^ d) = n * 2 ^ d"
    using round_half_even_int [of "n * 2 ^ d"] by simp
  have small: "\<not> pow_int 2 1024 \<le> \<bar>of_int n :: rat\<bar>"
  proof -
    have "\<bar>of_int n :: rat\<bar> < 2 ^ 53"
      using assms(2) by (metis of_int_abs of_int_less_numeral_power_cancel_iff)
    moreover have "(2::rat) ^ 53 \<le> 2 ^ 1024" by (rule power_increasing) simp_all
    ultimately show ?thesis by (simp add: pow_int_def)
  qed
  have max_e: "max e (- 1022) = e" using e0 by simp
  show ?thesis
    using assms(1) small
    by (simp add: round_double_def il max_e ulp rhe Let_def abs_mult)
qed

lemma round_double_numeral:
  "(numeral k :: int) < 2 ^ 53 \<Longrightarrow> round_double (numeral k) = Fin (numeral k)"
  using round_double_int [of "numeral k"] by simp

lemma round_double_neg_numeral:
  "(numeral k :: int) < 2 ^ 53 \<Longrightarrow> round_double (- numeral k) = Fin (- numeral k)"
  using round_double_int [of "- numeral k"] by simp

lemma round_double_one: "round_double 1 = Fin 1"
  using round_double_int [of 1] by simp

lemmas parse_defs =
  Number_str_def trim_def is_ws_def nondecimal_def str_decimal_def exp_part_def
  unsigned_int_def digits_val_def digit_in_def is_digit_def pow_int_def signed_zero_def
  signed_inf_def radix_val_def Let_def

lemma Number_str_digit:
  "Number_str (digit_text d) =
     Fin (case d of D0 \<Rightarrow> 0 | D1 \<Rightarrow> 1 | D2 \<Rightarrow> 2 | D3 \<Rightarrow> 3 | D4 \<Rightarrow> 4
          | D5 \<Rightarrow> 5 | D6 \<Rightarrow> 6 | D7 \<Rightarrow> 7 | D8 \<Rightarrow> 8 | D9 \<Rightarrow> 9)"
  by (cases d) (simp_all add: parse_defs round_double_numeral round_double_one)

lemma Number_str_Error: "Number_str ''Error'' = NaN"
  by (simp add: parse_defs)

lemma Number_str_dot: "Number_str ''.'' = NaN"
  by (simp add: parse_defs)

lemmas show_defs =
  pos_string_def ilog_def ilen.simps try_digits_def layout_def dec_digits.simps
  digit_char_def pow_int_def Let_def

lemma String_num_1: "String_num (Fin 1) = ''1''"
  by (simp add: show_defs round_double_numeral round_double_one eval_nat_numeral)

lemma String_num_minus_1: "String_num (Fin (- 1)) = ''-1''"
  by (simp add: show_defs round_double_numeral round_double_one eval_nat_numeral)

lemma String_num_10: "String_num (Fin 10) = ''10''"
  by (simp add: show_defs round_double_numeral round_double_one eval_nat_numeral)

lemma round_double_minus_one: "round_double (- 1) = Fin (- 1)"
  using round_double_int [of "- 1"] by simp

lemma pos_string_1: "pos_string 1 = ''1''"
  using String_num_1 by simp

lemma round_half_even_frac:
  assumes "0 < b"
  shows "round_half_even (of_int a / of_int b) =
           (if 2 * (a mod b) < b then a div b
            else if b < 2 * (a mod b) then a div b + 1
            else if even (a div b) then a div b else a div b + 1)"
proof -
  have fl: "\<lfloor>(of_int a / of_int b :: rat)\<rfloor> = a div b"
    by (rule floor_divide_of_int_eq)
  have bpos: "(0::rat) < of_int b" using assms by simp
  have "(of_int a :: rat) = of_int (a div b) * of_int b + of_int (a mod b)"
    by (metis div_mult_mod_eq of_int_add of_int_mult)
  then have d: "(of_int a / of_int b :: rat) - of_int (a div b) = of_int (a mod b) / of_int b"
    using bpos by (simp add: field_simps)
  have lt: "(of_int (a mod b) / of_int b :: rat) < 1 / 2 \<longleftrightarrow> 2 * (a mod b) < b"
  proof -
    have "(of_int (a mod b) / of_int b :: rat) < 1 / 2 \<longleftrightarrow>
            (of_int (2 * (a mod b)) :: rat) < of_int b"
      using bpos by (simp add: field_simps)
    then show ?thesis by (simp only: of_int_less_iff)
  qed
  have gt: "(1 / 2 :: rat) < of_int (a mod b) / of_int b \<longleftrightarrow> b < 2 * (a mod b)"
  proof -
    have "(1 / 2 :: rat) < of_int (a mod b) / of_int b \<longleftrightarrow>
            (of_int b :: rat) < of_int (2 * (a mod b))"
      using bpos by (simp add: field_simps)
    then show ?thesis by (simp only: of_int_less_iff)
  qed
  show ?thesis
    unfolding round_half_even_def Let_def fl d lt gt ..
qed

lemma round_half_even_numeral_frac:
  "round_half_even (numeral a / numeral b) =
     (if 2 * (numeral a mod numeral b) < (numeral b :: int) then numeral a div numeral b
      else if (numeral b :: int) < 2 * (numeral a mod numeral b) then numeral a div numeral b + 1
      else if even (numeral a div numeral b :: int) then numeral a div numeral b
      else numeral a div numeral b + 1)"
  using round_half_even_frac [of "numeral b" "numeral a"] by simp

lemma round_half_even_bounds: "\<lfloor>x\<rfloor> \<le> round_half_even x \<and> round_half_even x \<le> \<lfloor>x\<rfloor> + 1"
  by (simp add: round_half_even_def Let_def)

lemma round_double_2_4:
  assumes "2 \<le> q" and "q < 4"
  shows "round_double q = Fin (of_int (round_half_even (q * 2 ^ 51)) / 2 ^ 51)"
proof -
  have "2 \<le> \<lfloor>q\<rfloor>" "\<lfloor>q\<rfloor> < 4" using assms by (simp_all add: le_floor_iff floor_less_iff)
  then have "\<lfloor>q\<rfloor> = 2 \<or> \<lfloor>q\<rfloor> = 3" by linarith
  moreover have "ilen 2 2 = 2" "ilen 2 3 = 2" by (simp_all add: ilen.simps)
  ultimately have "ilen 2 \<lfloor>q\<rfloor> = 2" by (elim disjE) (simp_all only:)
  then have il: "ilog 2 \<bar>q\<bar> = 1" using assms by (simp add: ilog_def)
  have ulp: "pow_int 2 (- 51) = 1 / 2 ^ 51" by (simp add: pow_int_def)
  define t where "t = q * 2 ^ 51"
  define m where "m = round_half_even t"
  have t_lo: "2 ^ 52 \<le> t" and t_hi: "t < 2 ^ 53"
    using assms by (simp_all add: t_def)
  have "2 ^ 52 \<le> \<lfloor>t\<rfloor>" using t_lo by (simp add: le_floor_iff)
  moreover have "\<lfloor>t\<rfloor> < 2 ^ 53" using t_hi by (simp add: floor_less_iff)
  moreover have "\<lfloor>t\<rfloor> \<le> m \<and> m \<le> \<lfloor>t\<rfloor> + 1"
    unfolding m_def by (rule round_half_even_bounds)
  ultimately have m_lo: "2 ^ 52 \<le> m" and m_hi: "m \<le> 2 ^ 53" by linarith+
  have r_pos: "(0::rat) < of_int m / 2 ^ 51" using m_lo by simp
  have "(of_int m :: rat) \<le> of_int (2 ^ 53)" using m_hi by (simp only: of_int_le_iff)
  then have "(of_int m :: rat) / 2 ^ 51 \<le> 4" by (simp add: field_simps)
  moreover have "(4::rat) < 2 ^ 1024" by simp
  ultimately have small: "\<not> pow_int 2 1024 \<le> \<bar>of_int m / 2 ^ 51 :: rat\<bar>"
    using r_pos by (simp add: pow_int_def)
  have q0: "q \<noteq> 0" using assms(1) by auto
  have unfolded: "round_double q =
      (if pow_int 2 1024 \<le> \<bar>of_int m / 2 ^ 51 :: rat\<bar> then signed_inf (q < 0)
       else if (of_int m / 2 ^ 51 :: rat) = 0 then signed_zero (q < 0)
       else Fin (of_int m / 2 ^ 51))"
    using q0 by (simp add: round_double_def il ulp Let_def m_def t_def)
  show ?thesis
    unfolding unfolded using small r_pos by (simp add: m_def t_def)
qed

lemma floor_numeral_frac: "\<lfloor>(numeral a / numeral b :: rat)\<rfloor> = numeral a div numeral b"
  using floor_divide_of_int_eq [of "numeral a" "numeral b", where ?'a = rat] by simp

lemma shortest_from_None:
  "try_digits x n0 k = None \<Longrightarrow> f' = Suc f \<Longrightarrow> k' = Suc k \<Longrightarrow>
   shortest_from x n0 f' k = shortest_from x n0 f k'"
  by simp

lemma shortest_from_Some:
  "try_digits x n0 k = Some r \<Longrightarrow> f' = Suc f \<Longrightarrow> shortest_from x n0 f' k = r"
  by simp

lemma round_half_even_numeral: "round_half_even (numeral a) = numeral a"
  using round_half_even_int [of "numeral a"] by simp

lemma ilog_10_PI: "ilog 10 (884279719003555 / 281474976710656) = 0"
  by (simp add: ilog_def ilen.simps floor_numeral_frac)

lemma try_digits_PI_short:
  "try_digits (884279719003555 / 281474976710656) 1 1 = None"
  "try_digits (884279719003555 / 281474976710656) 1 2 = None"
  "try_digits (884279719003555 / 281474976710656) 1 3 = None"
  "try_digits (884279719003555 / 281474976710656) 1 4 = None"
  "try_digits (884279719003555 / 281474976710656) 1 5 = None"
  "try_digits (884279719003555 / 281474976710656) 1 6 = None"
  "try_digits (884279719003555 / 281474976710656) 1 7 = None"
  "try_digits (884279719003555 / 281474976710656) 1 8 = None"
  "try_digits (884279719003555 / 281474976710656) 1 9 = None"
  "try_digits (884279719003555 / 281474976710656) 1 10 = None"
  "try_digits (884279719003555 / 281474976710656) 1 11 = None"
  "try_digits (884279719003555 / 281474976710656) 1 12 = None"
  "try_digits (884279719003555 / 281474976710656) 1 13 = None"
  "try_digits (884279719003555 / 281474976710656) 1 14 = None"
  "try_digits (884279719003555 / 281474976710656) 1 15 = None"
  by (simp_all add: try_digits_def pow_int_def Let_def round_double_2_4 round_double_numeral
        round_half_even_numeral_frac round_half_even_numeral floor_numeral_frac)

lemma try_digits_PI_16:
  "try_digits (884279719003555 / 281474976710656) 1 16 = Some (3141592653589793, 1)"
  by (simp add: try_digits_def pow_int_def Let_def round_double_2_4 round_double_numeral
        round_half_even_numeral_frac round_half_even_numeral floor_numeral_frac)

lemma shortest_from_PI: "shortest_from (884279719003555 / 281474976710656) 1 17 1 = (3141592653589793, 1)"
proof -
  have s1: "shortest_from (884279719003555 / 281474976710656) 1 17 1 = shortest_from (884279719003555 / 281474976710656) 1 16 2"
    by (rule shortest_from_None [OF try_digits_PI_short(1)]) simp_all
  have s2: "shortest_from (884279719003555 / 281474976710656) 1 16 2 = shortest_from (884279719003555 / 281474976710656) 1 15 3"
    by (rule shortest_from_None [OF try_digits_PI_short(2)]) simp_all
  have s3: "shortest_from (884279719003555 / 281474976710656) 1 15 3 = shortest_from (884279719003555 / 281474976710656) 1 14 4"
    by (rule shortest_from_None [OF try_digits_PI_short(3)]) simp_all
  have s4: "shortest_from (884279719003555 / 281474976710656) 1 14 4 = shortest_from (884279719003555 / 281474976710656) 1 13 5"
    by (rule shortest_from_None [OF try_digits_PI_short(4)]) simp_all
  have s5: "shortest_from (884279719003555 / 281474976710656) 1 13 5 = shortest_from (884279719003555 / 281474976710656) 1 12 6"
    by (rule shortest_from_None [OF try_digits_PI_short(5)]) simp_all
  have s6: "shortest_from (884279719003555 / 281474976710656) 1 12 6 = shortest_from (884279719003555 / 281474976710656) 1 11 7"
    by (rule shortest_from_None [OF try_digits_PI_short(6)]) simp_all
  have s7: "shortest_from (884279719003555 / 281474976710656) 1 11 7 = shortest_from (884279719003555 / 281474976710656) 1 10 8"
    by (rule shortest_from_None [OF try_digits_PI_short(7)]) simp_all
  have s8: "shortest_from (884279719003555 / 281474976710656) 1 10 8 = shortest_from (884279719003555 / 281474976710656) 1 9 9"
    by (rule shortest_from_None [OF try_digits_PI_short(8)]) simp_all
  have s9: "shortest_from (884279719003555 / 281474976710656) 1 9 9 = shortest_from (884279719003555 / 281474976710656) 1 8 10"
    by (rule shortest_from_None [OF try_digits_PI_short(9)]) simp_all
  have s10: "shortest_from (884279719003555 / 281474976710656) 1 8 10 = shortest_from (884279719003555 / 281474976710656) 1 7 11"
    by (rule shortest_from_None [OF try_digits_PI_short(10)]) simp_all
  have s11: "shortest_from (884279719003555 / 281474976710656) 1 7 11 = shortest_from (884279719003555 / 281474976710656) 1 6 12"
    by (rule shortest_from_None [OF try_digits_PI_short(11)]) simp_all
  have s12: "shortest_from (884279719003555 / 281474976710656) 1 6 12 = shortest_from (884279719003555 / 281474976710656) 1 5 13"
    by (rule shortest_from_None [OF try_digits_PI_short(12)]) simp_all
  have s13: "shortest_from (884279719003555 / 281474976710656) 1 5 13 = shortest_from (884279719003555 / 281474976710656) 1 4 14"
    by (rule shortest_from_None [OF try_digits_PI_short(13)]) simp_all
  have s14: "shortest_from (884279719003555 / 281474976710656) 1 4 14 = shortest_from (884279719003555 / 281474976710656) 1 3 15"
    by (rule shortest_from_None [OF try_digits_PI_short(14)]) simp_all
  have s15: "shortest_from (884279719003555 / 281474976710656) 1 3 15 = shortest_from (884279719003555 / 281474976710656) 1 2 16"
    by (rule shortest_from_None [OF try_digits_PI_short(15)]) simp_all
  have s16: "shortest_from (884279719003555 / 281474976710656) 1 2 16 = (3141592653589793, 1)"
    by (rule shortest_from_Some [OF try_digits_PI_16]) simp
  show ?thesis
    by (simp only: s1 s2 s3 s4 s5 s6 s7 s8 s9 s10 s11 s12 s13 s14 s15 s16)
qed

lemma layout_PI: "layout (3141592653589793, 1) = ''3.141592653589793''"
  by (simp add: layout_def dec_digits.simps digit_char_def Let_def)

lemma pos_string_PI: "pos_string (884279719003555 / 281474976710656) = ''3.141592653589793''"
  by (simp only: pos_string_def ilog_10_PI add_0 shortest_from_PI layout_PI)

lemma String_num_PI: "String_num Math_PI = ''3.141592653589793''"
  by (simp add: Math_PI_def pos_string_PI)

lemma Number_str_0 [simp]: "Number_str ''0'' = Fin 0"
  and Number_str_1 [simp]: "Number_str ''1'' = Fin 1"
  and Number_str_2 [simp]: "Number_str ''2'' = Fin 2"
  and Number_str_3 [simp]: "Number_str ''3'' = Fin 3"
  and Number_str_4 [simp]: "Number_str ''4'' = Fin 4"
  and Number_str_5 [simp]: "Number_str ''5'' = Fin 5"
  and Number_str_8 [simp]: "Number_str ''8'' = Fin 8"
  using Number_str_digit [of D0] Number_str_digit [of D1] Number_str_digit [of D2]
    Number_str_digit [of D3] Number_str_digit [of D4] Number_str_digit [of D5]
    Number_str_digit [of D8]
  by simp_all

section \<open>What each handler leaves alone\<close>

lemma clearShifts_fields [simp]:
  "power_st (clearShifts s) = power_st s"
  "shift (clearShifts s) = False"
  "alpha (clearShifts s) = False"
  "hyp (clearShifts s) = hyp s"
  "mode (clearShifts s) = mode s"
  "acc_st (clearShifts s) = acc_st s"
  "pendingOp (clearShifts s) = pendingOp s"
  "current (clearShifts s) = current s"
  "lastAns (clearShifts s) = lastAns s"
  "memory (clearShifts s) = memory s"
  "vars (clearShifts s) = vars s"
  by (simp_all add: clearShifts_def)

lemma executePending_frame [simp]:
  "power_st (executePending s) = power_st s"
  "shift (executePending s) = shift s"
  "alpha (executePending s) = alpha s"
  "hyp (executePending s) = hyp s"
  "mode (executePending s) = mode s"
  "memory (executePending s) = memory s"
  "vars (executePending s) = vars s"
  by (simp_all add: executePending_def Let_def split: option.splits binop.splits jsval.splits)

lemma applyUnary_frame:
  assumes "applyUnary f s = Some s'"
  shows "power_st s' = power_st s" and "hyp s' = hyp s" and "mode s' = mode s"
    and "power_st s \<Longrightarrow> \<not> shift s' \<and> \<not> alpha s'"
  using assms by (auto simp: applyUnary_def split: if_splits option.splits)

lemma trigApply_frame:
  "power_st (trigApply M k s) = power_st s"
  "hyp (trigApply M k s) = hyp s"
  "mode (trigApply M k s) = mode s"
  "power_st s \<Longrightarrow> \<not> shift (trigApply M k s) \<and> \<not> alpha (trigApply M k s)"
  by (simp_all add: trigApply_def)

lemma sto_rcl_frame:
  "power_st (sto_rcl b r s) = power_st s"
  "hyp (sto_rcl b r s) = hyp s"
  "mode (sto_rcl b r s) = mode s"
  "shift (sto_rcl b r s) = False"
  "alpha (sto_rcl b r s) = False"
  by (simp_all add: sto_rcl_def Let_def split: option.splits)

lemma handleKey_mode:
  assumes "handleKey M f s = Some s'" and "f \<noteq> ModeToggle" and "f \<noteq> Drg"
  shows "mode s' = mode s"
  using assms
  by (cases f)
     (auto simp: handleKey_def Let_def applyUnary_frame trigApply_frame sto_rcl_frame
           split: if_splits)

lemma handleKey_hyp:
  assumes "handleKey M f s = Some s'" and "f \<noteq> Hyp"
  shows "hyp s' = hyp s"
  using assms
  by (cases f)
     (auto simp: handleKey_def Let_def applyUnary_frame trigApply_frame sto_rcl_frame
           split: if_splits)

lemma handleNumKey_frame [simp]:
  "power_st (handleNumKey d s) = power_st s"
  "shift (handleNumKey d s) = shift s"
  "alpha (handleNumKey d s) = alpha s"
  "hyp (handleNumKey d s) = hyp s"
  "mode (handleNumKey d s) = mode s"
  by (simp_all add: handleNumKey_def)

lemma handleOp_frame [simp]:
  "power_st (handleOp op s) = power_st s"
  "shift (handleOp op s) = shift s"
  "alpha (handleOp op s) = alpha s"
  "hyp (handleOp op s) = hyp s"
  "mode (handleOp op s) = mode s"
  by (simp_all add: handleOp_def Let_def)

lemma handleKey_off: "\<not> power_st s \<Longrightarrow> f \<noteq> PowerOn \<Longrightarrow> handleKey M f s = Some s"
  by (simp add: handleKey_def)

lemma handleEvent_off:
  "\<not> power_st s \<Longrightarrow> e \<noteq> Key PowerOn \<Longrightarrow> handleEvent M e s = Some s"
  by (cases e) (auto simp: handleKey_off handleNumKey_def handleOp_def)

lemma handleKey_clears:
  assumes "handleKey M f s = Some s'" and "power_st s"
    and "f \<notin> set [PowerOn, Shift, Alpha, Hyp, ModeToggle, Drg]"
  shows "\<not> shift s' \<and> \<not> alpha s'"
  using assms
  by (cases f)
     (auto simp: handleKey_def Let_def trigApply_frame sto_rcl_frame
           dest: applyUnary_frame(4) split: if_splits)

lemma handleKey_power_off:
  assumes "handleKey M f s = Some s'" and "power_st s" and "\<not> power_st s'"
  shows "f = AllClear \<and> shift s \<and> current s' = [] \<and> \<not> shift s' \<and> \<not> alpha s'"
  using assms
  by (cases f)
     (auto simp: handleKey_def Let_def trigApply_frame sto_rcl_frame
           dest: applyUnary_frame(1) split: if_splits)

lemma handleEvent_power_off:
  assumes "handleEvent M e s = Some s'" and "power_st s" and "\<not> power_st s'"
  shows "current s' = [] \<and> \<not> shift s' \<and> \<not> alpha s'"
  using assms by (cases e) (auto dest: handleKey_power_off)

lemma handleKey_PowerOn: "handleKey M PowerOn s = Some (s\<lparr>power_st := True, current := []\<rparr>)"
  by (simp add: handleKey_def)

lemma reachable_off:
  assumes "reachable M s" and "\<not> power_st s"
  shows "current s = [] \<and> \<not> shift s \<and> \<not> alpha s"
  using assms
proof (induction rule: reachable.induct)
  case reachable_init
  then show ?case by (simp add: init_def)
next
  case (reachable_step s e s')
  show ?case
  proof (cases "power_st s")
    case True
    then show ?thesis
      using handleEvent_power_off [OF reachable_step.hyps(2)] reachable_step.prems by blast
  next
    case False
    have "e \<noteq> Key PowerOn"
      using reachable_step.hyps(2) reachable_step.prems by (auto simp: handleKey_PowerOn)
    with False have "handleEvent M e s = Some s" by (rule handleEvent_off)
    with reachable_step.hyps(2) have "s' = s" by simp
    with reachable_step.IH False show ?thesis by simp
  qed
qed

lemma reachable_shift_on: "reachable M s \<Longrightarrow> shift s \<Longrightarrow> power_st s"
  using reachable_off by blast

lemma handleEvent_hyp:
  assumes "handleEvent M e s = Some s'" and "e \<noteq> Key Hyp"
  shows "hyp s' = hyp s"
  using assms by (cases e) (auto dest: handleKey_hyp)

lemma handleEvent_mode:
  assumes "handleEvent M e s = Some s'" and "e \<noteq> Key ModeToggle" and "e \<noteq> Key Drg"
  shows "mode s' = mode s"
  using assms by (cases e) (auto dest: handleKey_mode)

lemma handleEvent_total: "e \<noteq> Key Factorial \<Longrightarrow> \<exists>s'. handleEvent M e s = Some s'"
proof (cases e)
  case (Key f)
  assume "e \<noteq> Key Factorial"
  with Key show ?thesis
    by (cases f) (auto simp: handleKey_def applyUnary_def Let_def)
qed simp_all

lemma filter_butlast_le: "length (filter P (butlast xs)) \<le> length (filter P xs)"
  by (induction xs) auto

lemma list_all_butlast: "list_all P xs \<Longrightarrow> list_all P (butlast xs)"
  by (induction xs) auto

lemma entry_ok_butlast: "entry_ok c \<Longrightarrow> entry_ok (butlast c)"
  using filter_butlast_le [of "\<lambda>x. x = CHR ''.''" c]
  by (simp add: entry_ok_def list_all_butlast)

lemma entry_ok_digit_text: "entry_ok (digit_text d)"
  by (cases d) (simp_all add: entry_ok_def entry_char_def)

lemma entry_ok_append_digit: "entry_ok c \<Longrightarrow> entry_ok (c @ digit_text d)"
  by (cases d) (simp_all add: entry_ok_def entry_char_def)

lemma entry_ok_dot: "entry_ok c \<Longrightarrow> CHR ''.'' \<notin> set c \<Longrightarrow> entry_ok (c @ ''.'')"
proof -
  assume a: "entry_ok c" and b: "CHR ''.'' \<notin> set c"
  from b have "filter (\<lambda>x. x = CHR ''.'') c = []" by (induction c) auto
  with a show ?thesis by (simp add: entry_ok_def entry_char_def)
qed

lemma entry_ok_Nil [simp]: "entry_ok []"
  by (simp add: entry_ok_def)

lemma sto_rcl_store_current: "current (sto_rcl True r s) = current s"
  by (simp add: sto_rcl_def Let_def split: option.splits)

lemma handleNumKey_entry_ok:
  "entry_ok (current s) \<Longrightarrow> entry_ok (current (handleNumKey (digit_text d) s))"
  "entry_ok (current s) \<Longrightarrow> entry_ok (current (handleNumKey ''.'' s))"
  by (simp_all add: handleNumKey_def entry_ok_digit_text entry_ok_append_digit entry_ok_dot)

lemma entry_ok_PI: "entry_ok (String_num Math_PI)"
  by (simp add: String_num_PI entry_ok_def entry_char_def)

lemma factorial_NaN: "factorial NaN = Some (Fin 1)"
  by (simp add: factorial_def js_lt_def fact_loop.simps [of "Fin 2" NaN "Fin 1"] js_le_def
        js_eq_def)

text \<open>The definitions a concrete run unfolds.\<close>

lemmas run_defs = handleKey_def handleNumKey_def handleOp_def executePending_def
  clearShifts_def current_or_lastAns_def init_def Let_def

section \<open>The claims\<close>

text \<open>
  Claim C1. After \<open>8\<close>, \<open>\<div>\<close>, \<open>0\<close>, \<open>Equals\<close> from the initial state the claim expects
  \<open>current = "Error"\<close>, \<open>acc = 0\<close> and \<open>pendingOp = none\<close>. The run ends with \<open>acc = 0\<close> and
  no pending operator, but with \<open>current\<close> empty: \<^verbatim>\<open>executePending\<close> does write the
  sentinel \<^verbatim>\<open>'Error'\<close>, and the \<^verbatim>\<open>equal\<close> branch of \<^verbatim>\<open>handleKey\<close> then overwrites it
  with the empty string. A further operator key in place of \<open>Equals\<close> keeps the sentinel.
\<close>

theorem equals_discards_division_error:
  "map_option current (run M [Digit D8, BinaryOp OpDiv, Digit D0, Key Equals] init) = Some []
   \<and> map_option acc_st (run M [Digit D8, BinaryOp OpDiv, Digit D0, Key Equals] init)
       = Some (Fin 0)
   \<and> map_option pendingOp (run M [Digit D8, BinaryOp OpDiv, Digit D0, Key Equals] init)
       = Some None
   \<and> map_option (current \<circ> executePending) (run M [Digit D8, BinaryOp OpDiv, Digit D0] init)
       = Some ''Error''
   \<and> map_option current (run M [Digit D8, BinaryOp OpDiv, Digit D0, BinaryOp OpAdd] init)
       = Some ''Error''"
  by (simp add: run_defs js_eq_def)

text \<open>
  Claim C2, as stated, fails: \<^verbatim>\<open>handleNumKey\<close>, \<^verbatim>\<open>handleOp\<close> and the \<^verbatim>\<open>on\<close> branch of
  \<^verbatim>\<open>handleKey\<close> never call \<^verbatim>\<open>clearShifts\<close>, so after \<open>Shift\<close> (or \<open>Alpha\<close>) a digit, the
  decimal point, a binary operator or \<open>PowerOn\<close> leaves the modifier set.
\<close>

theorem modifiers_survive_entry_keys:
  "map_option shift (run nan_math [Key Shift, Digit D1] init) = Some True
   \<and> map_option shift (run nan_math [Key Shift, DecimalPoint] init) = Some True
   \<and> map_option shift (run nan_math [Key Shift, BinaryOp OpAdd] init) = Some True
   \<and> map_option shift (run nan_math [Key Shift, Key PowerOn] init) = Some True
   \<and> map_option alpha (run nan_math [Key Alpha, Digit D1] init) = Some True"
  by (simp add: run_defs)

text \<open>
  Claim C2, amended. In every reachable state, every key handled by \<^verbatim>\<open>handleKey\<close> other
  than \<open>PowerOn\<close>, \<open>Shift\<close>, \<open>Alpha\<close>, \<open>Hyp\<close>, \<open>ModeToggle\<close> and \<open>Drg\<close> leaves
  \<open>shift = false\<close> and \<open>alpha = false\<close>; and every event other than \<open>Hyp\<close> leaves \<open>hyp\<close>
  unchanged.
\<close>

theorem one_shot_modifiers:
  assumes "reachable M s" and "handleEvent M e s = Some s'"
  shows "(clears_modifiers e \<longrightarrow> \<not> shift s' \<and> \<not> alpha s')
         \<and> (e \<noteq> Key Hyp \<longrightarrow> hyp s' = hyp s)"
proof -
  have "\<not> shift s' \<and> \<not> alpha s'" if c: "clears_modifiers e"
  proof -
    from c obtain f where e: "e = Key f"
      and f: "f \<notin> set [PowerOn, Shift, Alpha, Hyp, ModeToggle, Drg]"
      by (cases e) (auto simp: clears_modifiers_def)
    show ?thesis
    proof (cases "power_st s")
      case True
      with assms(2) e f show ?thesis using handleKey_clears [of M f s s'] by simp
    next
      case False
      then have "handleEvent M e s = Some s" using e f by (intro handleEvent_off) auto
      with assms(2) have "s' = s" by simp
      with reachable_off [OF assms(1) False] show ?thesis by simp
    qed
  qed
  moreover have "hyp s' = hyp s" if "e \<noteq> Key Hyp"
    using assms(2) that by (rule handleEvent_hyp)
  ultimately show ?thesis by blast
qed

theorem one_shot_modifiers_witness:
  "reachable nan_math (init\<lparr>shift := True\<rparr>)
   \<and> handleEvent nan_math (Key MemClear) (init\<lparr>shift := True\<rparr>) = Some init
   \<and> clears_modifiers (Key MemClear) \<and> Key MemClear \<noteq> Key Hyp
   \<and> \<not> shift init \<and> \<not> alpha init \<and> hyp init = hyp (init\<lparr>shift := True\<rparr>)"
proof -
  have "handleEvent nan_math (Key Shift) init = Some (init\<lparr>shift := True\<rparr>)"
    by (simp add: run_defs)
  then have r: "reachable nan_math (init\<lparr>shift := True\<rparr>)"
    using reachable_init reachable_step by blast
  have h: "handleEvent nan_math (Key MemClear) (init\<lparr>shift := True\<rparr>) = Some init"
    by (simp add: run_defs)
  have c: "clears_modifiers (Key MemClear)" by (simp add: clears_modifiers_def)
  from one_shot_modifiers [OF r h] r h c show ?thesis by simp
qed

text \<open>
  Claim C3. After \<open>5\<close>, \<open>+\<close>, \<open>3\<close>, \<open>+\<close>, \<open>2\<close>, \<open>Equals\<close> from the initial state,
  \<open>lastAns = 10\<close>. Operators fold from left to right with no precedence (\<open>2 + 3 \<times> 4\<close> gives
  \<open>20\<close>): with the calculator on, an operator pending and an entry present, an operator
  key first runs \<^verbatim>\<open>executePending\<close> and then becomes the pending operator.
\<close>

theorem chaining_left_to_right:
  "map_option lastAns
     (run M [Digit D5, BinaryOp OpAdd, Digit D3, BinaryOp OpAdd, Digit D2, Key Equals] init)
     = Some (Fin 10)
   \<and> map_option lastAns
       (run M [Digit D2, BinaryOp OpAdd, Digit D3, BinaryOp OpMul, Digit D4, Key Equals] init)
       = Some (Fin 20)
   \<and> (power_st s \<and> pendingOp s \<noteq> None \<and> current s \<noteq> [] \<longrightarrow>
        handleOp op s = (executePending s)\<lparr>pendingOp := Some op\<rparr>)"
  by (simp add: run_defs js_add_def js_mul_def round_double_numeral)

theorem chaining_left_to_right_witness:
  "power_st (init\<lparr>acc_st := Fin 5, pendingOp := Some OpAdd, current := ''3''\<rparr>)
   \<and> pendingOp (init\<lparr>acc_st := Fin 5, pendingOp := Some OpAdd, current := ''3''\<rparr>) \<noteq> None
   \<and> current (init\<lparr>acc_st := Fin 5, pendingOp := Some OpAdd, current := ''3''\<rparr>) \<noteq> []
   \<and> handleOp OpMul (init\<lparr>acc_st := Fin 5, pendingOp := Some OpAdd, current := ''3''\<rparr>)
       = (executePending (init\<lparr>acc_st := Fin 5, pendingOp := Some OpAdd, current := ''3''\<rparr>))
           \<lparr>pendingOp := Some OpMul\<rparr>
   \<and> acc_st (handleOp OpMul (init\<lparr>acc_st := Fin 5, pendingOp := Some OpAdd, current := ''3''\<rparr>))
       = Fin 8"
  using chaining_left_to_right
    [of nan_math "init\<lparr>acc_st := Fin 5, pendingOp := Some OpAdd, current := ''3''\<rparr>" OpMul]
  by (simp add: run_defs js_add_def round_double_numeral)

text \<open>
  Claim C4. For a \<open>Trig k\<close> key with read value \<open>v\<close>: with \<open>hyp\<close> and \<open>shift\<close> the result is
  the inverse hyperbolic function of \<open>v\<close> itself, with no conversion before or after; with
  \<open>shift\<close> and no \<open>hyp\<close> it is the inverse function of \<open>v\<close>, converted from radians to
  degrees exactly when the mode is \<open>DEG\<close>; without \<open>shift\<close> the hyperbolic function (with
  \<open>hyp\<close>) or the forward function (without) is applied to \<open>v \<times> \<pi> / 180\<close> when the mode is
  \<open>DEG\<close> and to \<open>v\<close> otherwise. With the calculator on, the key writes that result (or the
  sentinel) to \<open>current\<close> and clears \<open>shift\<close> and \<open>alpha\<close>.
\<close>

theorem trig_dispatch:
  "(hyp s \<and> shift s \<longrightarrow> trigResult M k s = Math_inverse_hyperbolic M k (read_value s))
   \<and> (\<not> hyp s \<and> shift s \<longrightarrow>
        trigResult M k s =
          (if mode s = DEG then radToDeg (Math_inverse M k (read_value s))
           else Math_inverse M k (read_value s)))
   \<and> (hyp s \<and> \<not> shift s \<longrightarrow>
        trigResult M k s =
          Math_hyperbolic M k (if mode s = DEG then degToRad (read_value s) else read_value s))
   \<and> (\<not> hyp s \<and> \<not> shift s \<longrightarrow>
        trigResult M k s =
          Math_forward M k (if mode s = DEG then degToRad (read_value s) else read_value s))
   \<and> (power_st s \<longrightarrow>
        handleEvent M (Key (Trig k)) s =
          Some (s\<lparr>current := show_result (trigResult M k s), shift := False, alpha := False\<rparr>))
   \<and> degToRad v = js_div (js_mul v Math_PI) (Fin 180)
   \<and> radToDeg v = js_div (js_mul v (Fin 180)) Math_PI"
  by (cases k)
     (simp_all add: trigResult_def Let_def handleKey_def trigApply_def clearShifts_def
        degToRad_def radToDeg_def Math_forward_def Math_hyperbolic_def Math_inverse_def
        Math_inverse_hyperbolic_def)

theorem trig_dispatch_witness:
  "hyp (init\<lparr>hyp := True, shift := True, current := ''3''\<rparr>)
   \<and> shift (init\<lparr>hyp := True, shift := True, current := ''3''\<rparr>)
   \<and> trigResult nan_math Sin (init\<lparr>hyp := True, shift := True, current := ''3''\<rparr>)
       = Math_asinh nan_math (Fin 3)
   \<and> \<not> hyp (init\<lparr>shift := True, current := ''1''\<rparr>)
   \<and> shift (init\<lparr>shift := True, current := ''1''\<rparr>)
   \<and> trigResult nan_math Cos (init\<lparr>shift := True, current := ''1''\<rparr>)
       = radToDeg (Math_acos nan_math (Fin 1))
   \<and> hyp (init\<lparr>hyp := True, current := ''2''\<rparr>)
   \<and> \<not> shift (init\<lparr>hyp := True, current := ''2''\<rparr>)
   \<and> trigResult nan_math Tan (init\<lparr>hyp := True, current := ''2''\<rparr>)
       = Math_tanh nan_math (degToRad (Fin 2))
   \<and> \<not> hyp (init\<lparr>mode := RAD, current := ''2''\<rparr>)
   \<and> \<not> shift (init\<lparr>mode := RAD, current := ''2''\<rparr>)
   \<and> power_st (init\<lparr>mode := RAD, current := ''2''\<rparr>)
   \<and> trigResult nan_math Sin (init\<lparr>mode := RAD, current := ''2''\<rparr>)
       = Math_sin nan_math (Fin 2)
   \<and> handleEvent nan_math (Key (Trig Sin)) (init\<lparr>mode := RAD, current := ''2''\<rparr>)
       = Some (init\<lparr>mode := RAD, current := show_result (Math_sin nan_math (Fin 2))\<rparr>)"
  using
    trig_dispatch [of "init\<lparr>hyp := True, shift := True, current := ''3''\<rparr>" nan_math Sin]
    trig_dispatch [of "init\<lparr>shift := True, current := ''1''\<rparr>" nan_math Cos]
    trig_dispatch [of "init\<lparr>hyp := True, current := ''2''\<rparr>" nan_math Tan]
    trig_dispatch [of "init\<lparr>mode := RAD, current := ''2''\<rparr>" nan_math Sin]
  by (simp add: init_def current_or_lastAns_def Math_forward_def Math_hyperbolic_def
        Math_inverse_def Math_inverse_hyperbolic_def)

text \<open>
  Claim C5, as stated, fails: a unary function can write the sentinel \<^verbatim>\<open>'Error'\<close>
  (\<open>Reciprocal\<close> in the initial state), as can an operator key after a division by zero;
  \<open>Ans\<close> and \<open>MemRecall\<close> write the string form of a number, which can carry a sign.
\<close>

theorem entry_grammar_broken:
  "map_option current (run nan_math [Key Reciprocal] init) = Some ''Error''
   \<and> map_option current
       (run nan_math [Digit D8, BinaryOp OpDiv, Digit D0, BinaryOp OpAdd] init) = Some ''Error''
   \<and> \<not> entry_ok ''Error''
   \<and> map_option current (run nan_math [BinaryOp OpSub, Digit D1, Key Equals, Key Ans] init)
       = Some ''-1''
   \<and> map_option current (run nan_math [Digit D1, Key MemSub, Key MemRecall] init)
       = Some ''-1''
   \<and> \<not> entry_ok ''-1''"
  by (simp add: run_defs applyUnary_def show_result_def js_div_def signed_inf_def js_eq_def
        js_sub_def js_add_def round_double_minus_one truthy_num_def String_num_minus_1
        entry_ok_def entry_char_def del: String_num.simps)

text \<open>
  Claim C5, amended. \<open>current\<close> is empty or a string of digits with at most one decimal
  point in the initial state, and this is kept by every event among \<open>Digit\<close>,
  \<open>DecimalPoint\<close>, \<open>Delete\<close>, \<open>Pi\<close>, \<open>Equals\<close>, \<open>AllClear\<close>, \<open>PowerOn\<close>, \<open>Shift\<close>, \<open>Alpha\<close>,
  \<open>Hyp\<close>, \<open>ModeToggle\<close>, \<open>Drg\<close>, \<open>Store\<close>, \<open>MemAdd\<close>, \<open>MemSub\<close>, \<open>MemClear\<close> and a key
  \<^verbatim>\<open>handleKey\<close> does not know.
\<close>

theorem entry_grammar_preserved:
  "entry_ok (current init)
   \<and> (entry_ok (current s) \<and> keeps_grammar e \<and> handleEvent M e s = Some s'
        \<longrightarrow> entry_ok (current s'))"
proof -
  have "entry_ok (current s')"
    if ok: "entry_ok (current s)" and k: "keeps_grammar e" and h: "handleEvent M e s = Some s'"
  proof (cases e)
    case (Key f)
    with k h ok show ?thesis
      by (cases f)
         (auto simp: keeps_grammar_def handleKey_def Let_def entry_ok_butlast entry_ok_PI
            sto_rcl_store_current split: if_splits)
  next
    case (Digit d)
    with h ok show ?thesis by (auto simp: handleNumKey_entry_ok)
  next
    case DecimalPoint
    with h ok show ?thesis by (auto simp: handleNumKey_entry_ok)
  next
    case (BinaryOp op)
    with k show ?thesis by (simp add: keeps_grammar_def)
  qed
  then show ?thesis by (simp add: init_def)
qed

theorem entry_grammar_preserved_witness:
  "entry_ok (current (init\<lparr>current := ''3.''\<rparr>)) \<and> keeps_grammar (Digit D5)
   \<and> handleEvent nan_math (Digit D5) (init\<lparr>current := ''3.''\<rparr>)
       = Some (init\<lparr>current := ''3.5''\<rparr>)
   \<and> entry_ok (current (init\<lparr>current := ''3.5''\<rparr>))
   \<and> keeps_grammar (Key Pi)
   \<and> handleEvent nan_math (Key Pi) (init\<lparr>current := ''3.''\<rparr>)
       = Some (init\<lparr>current := ''3.141592653589793''\<rparr>)
   \<and> entry_ok (current (init\<lparr>current := ''3.141592653589793''\<rparr>))"
proof -
  have ok: "entry_ok (current (init\<lparr>current := ''3.''\<rparr>))"
    by (simp add: entry_ok_def entry_char_def)
  show ?thesis
    using ok
      entry_grammar_preserved
        [of "init\<lparr>current := ''3.''\<rparr>" "Digit D5" nan_math "init\<lparr>current := ''3.5''\<rparr>"]
      entry_grammar_preserved
        [of "init\<lparr>current := ''3.''\<rparr>" "Key Pi" nan_math
            "init\<lparr>current := ''3.141592653589793''\<rparr>"]
    by (simp add: keeps_grammar_def handleNumKey_def handleKey_def clearShifts_def init_def
          String_num_PI)
qed

text \<open>
  Claim C6. While the calculator is off, every event other than \<open>PowerOn\<close> leaves the
  whole state as it is; \<open>PowerOn\<close>, the one event that changes a powered-off state, turns
  the calculator on and empties \<open>current\<close>.
\<close>

theorem powered_off_ignores:
  assumes "\<not> power_st s"
  shows "(e \<noteq> Key PowerOn \<longrightarrow> handleEvent M e s = Some s)
         \<and> handleEvent M (Key PowerOn) s = Some (s\<lparr>power_st := True, current := []\<rparr>)"
  using assms by (simp add: handleEvent_off handleKey_PowerOn)

theorem powered_off_ignores_witness:
  "\<not> power_st (init\<lparr>power_st := False\<rparr>) \<and> Digit D5 \<noteq> Key PowerOn
   \<and> handleEvent nan_math (Digit D5) (init\<lparr>power_st := False\<rparr>)
       = Some (init\<lparr>power_st := False\<rparr>)
   \<and> Key Factorial \<noteq> Key PowerOn
   \<and> handleEvent nan_math (Key Factorial) (init\<lparr>power_st := False\<rparr>)
       = Some (init\<lparr>power_st := False\<rparr>)
   \<and> handleEvent nan_math (Key PowerOn) (init\<lparr>power_st := False\<rparr>) = Some init"
  using powered_off_ignores [of "init\<lparr>power_st := False\<rparr>" "Digit D5" nan_math]
    powered_off_ignores [of "init\<lparr>power_st := False\<rparr>" "Key Factorial" nan_math]
  by (simp add: init_def)

text \<open>
  Claim C7. In every state with \<open>shift = true\<close> that is powered on, as every reachable
  state with \<open>shift = true\<close> is, \<open>AllClear\<close> sets \<open>power = false\<close>, \<open>current = ""\<close>,
  \<open>pendingOp = none\<close>, \<open>acc = 0\<close>, \<open>lastAns = 0\<close> and \<open>shift = alpha = false\<close>, and leaves
  \<open>hyp\<close>, \<open>memory\<close>, \<open>vars\<close> and \<open>mode\<close> as they were.
\<close>

theorem shift_allclear_powers_off:
  assumes "shift s" and "power_st s \<or> reachable M s"
  shows "handleEvent M (Key AllClear) s =
           Some (s\<lparr>power_st := False, current := [], pendingOp := None, acc_st := Fin 0,
                   lastAns := Fin 0, shift := False, alpha := False\<rparr>)"
proof -
  have "power_st s" using assms reachable_shift_on by blast
  with assms(1) show ?thesis by (simp add: handleKey_def)
qed

theorem shift_allclear_powers_off_witness:
  "shift (init\<lparr>shift := True, hyp := True, current := ''12'', memory := Fin 7\<rparr>)
   \<and> power_st (init\<lparr>shift := True, hyp := True, current := ''12'', memory := Fin 7\<rparr>)
   \<and> handleEvent nan_math (Key AllClear)
         (init\<lparr>shift := True, hyp := True, current := ''12'', memory := Fin 7\<rparr>)
       = Some (init\<lparr>power_st := False, hyp := True, memory := Fin 7\<rparr>)"
  using shift_allclear_powers_off
    [of "init\<lparr>shift := True, hyp := True, current := ''12'', memory := Fin 7\<rparr>" nan_math]
  by (simp add: init_def)

text \<open>
  Claim C8. In every state with \<open>power = true\<close>, \<open>PowerOn\<close> still empties \<open>current\<close> and
  leaves every other field, \<open>power\<close> included, as it was.
\<close>

theorem power_on_resets_entry:
  "power_st s \<Longrightarrow> handleEvent M (Key PowerOn) s = Some (s\<lparr>current := []\<rparr>)"
  by (simp add: handleKey_def)

theorem power_on_resets_entry_witness:
  "power_st (init\<lparr>current := ''12'', shift := True\<rparr>)
   \<and> handleEvent nan_math (Key PowerOn) (init\<lparr>current := ''12'', shift := True\<rparr>)
       = Some (init\<lparr>shift := True\<rparr>)"
  using power_on_resets_entry [of "init\<lparr>current := ''12'', shift := True\<rparr>" nan_math]
  by (simp add: init_def)

text \<open>
  Claim C9. Only the \<open>ModeToggle\<close> and \<open>Drg\<close> keys change \<open>mode\<close>: every other event,
  the soft clear, the power-off and \<open>PowerOn\<close> among them, leaves it as it was.
\<close>

theorem mode_only_by_mode_keys:
  "handleEvent M e s = Some s' \<Longrightarrow> e \<noteq> Key ModeToggle \<Longrightarrow> e \<noteq> Key Drg \<Longrightarrow> mode s' = mode s"
  by (rule handleEvent_mode)

theorem mode_only_by_mode_keys_witness:
  "handleEvent nan_math (Key AllClear) (init\<lparr>mode := RAD, shift := True\<rparr>)
     = Some (init\<lparr>mode := RAD, power_st := False\<rparr>)
   \<and> Key AllClear \<noteq> Key ModeToggle \<and> Key AllClear \<noteq> Key Drg
   \<and> mode (init\<lparr>mode := RAD, power_st := False\<rparr>) = mode (init\<lparr>mode := RAD, shift := True\<rparr>)"
proof -
  have h: "handleEvent nan_math (Key AllClear) (init\<lparr>mode := RAD, shift := True\<rparr>)
             = Some (init\<lparr>mode := RAD, power_st := False\<rparr>)"
    by (simp add: handleKey_def init_def)
  from mode_only_by_mode_keys [OF h] h show ?thesis by simp
qed

text \<open>
  Claim C10. With \<open>current = "Error"\<close> the read value is \<open>NaN\<close>; the factorial of \<open>NaN\<close>
  skips its loop and returns \<open>1\<close>; so in every powered-on state, as every reachable state
  showing the sentinel is, \<open>Factorial\<close> returns and sets \<open>current\<close> to \<open>"1"\<close>.
\<close>

theorem factorial_of_error:
  "toNumber (Str ''Error'') = NaN
   \<and> factorial NaN = Some (Fin 1)
   \<and> (current s = ''Error'' \<and> (power_st s \<or> reachable M s) \<longrightarrow>
        handleEvent M (Key Factorial) s
          = Some (s\<lparr>current := ''1'', shift := False, alpha := False\<rparr>))"
proof -
  have "power_st s" if "current s = ''Error''" and "power_st s \<or> reachable M s"
    using that reachable_off [of M s] by auto
  then show ?thesis
    by (auto simp: handleKey_def applyUnary_def current_or_lastAns_def Number_str_Error
          factorial_NaN show_result_def pos_string_1 clearShifts_def)
qed

theorem factorial_of_error_witness:
  "current (init\<lparr>current := ''Error''\<rparr>) = ''Error''
   \<and> reachable nan_math (init\<lparr>current := ''Error''\<rparr>)
   \<and> handleEvent nan_math (Key Factorial) (init\<lparr>current := ''Error''\<rparr>)
       = Some (init\<lparr>current := ''1''\<rparr>)"
proof -
  have "handleEvent nan_math (Key Reciprocal) init = Some (init\<lparr>current := ''Error''\<rparr>)"
    by (simp add: run_defs applyUnary_def show_result_def js_div_def signed_inf_def)
  then have r: "reachable nan_math (init\<lparr>current := ''Error''\<rparr>)"
    using reachable_init reachable_step by blast
  with factorial_of_error [of "init\<lparr>current := ''Error''\<rparr>" nan_math] show ?thesis
    by (simp add: init_def)
qed

end
